theory Spec2Isabelle
  imports Main
begin

section \<open>JavaScript values used by the solver\<close>

text \<open>
  A JavaScript string is a sequence of UTF-16 code units.  The solver inspects single
  code units (the integral sign U+222B, white space, letters), so a string is modelled
  as the list of its code units.  \<open>str\<close> embeds an ASCII literal.
\<close>

type_synonym jsstring = "nat list"

definition str :: "string \<Rightarrow> jsstring" where
  "str s = map of_char s"

text \<open>A thrown \<open>Error\<close> object; the solver reads only its \<open>message\<close>.\<close>

datatype js_error = Error (message: jsstring)

text \<open>
  The value a mathjs \<open>ConstantNode\<close> holds: a number for a numeric literal, a string
  for a quoted literal, a boolean or \<open>null\<close>.  A JavaScript number is an IEEE double;
  \<open>JNum n\<close> stands for the double whose value is the integer \<open>n\<close>.  Every integer of
  magnitude up to \<open>2^53\<close> is such a double, and for these the decimal digits below are
  what \<open>String\<close> prints and \<open>n + 1\<close> is the sum the code computes as long as the sum
  stays in that range.  Beyond it the code rounds the sum and prints large numbers in
  exponent notation, so the integers no longer describe it; fractions, \<open>NaN\<close>, the
  infinities and \<open>undefined\<close> (whose sum with 1 is \<open>NaN\<close>) have no representation.
  Statements about the text of a number are therefore made for \<open>safe_literal\<close> numbers
  only: the integers from 0 to \<open>2^53\<close>, which are also the only integers the parser
  delivers as a \<open>ConstantNode\<close> (it reads a minus sign as an operator, see below).
\<close>

datatype jsval = JNum int | JStr jsstring | JBool bool | JNull

definition safe_literal :: "int \<Rightarrow> bool" where
  "safe_literal n = (0 \<le> n \<and> n \<le> 2 ^ 53)"


function digit_chars :: "nat \<Rightarrow> jsstring" where
  "digit_chars n = (if n < 10 then [48 + n] else digit_chars (n div 10) @ [48 + n mod 10])"
  by pat_completeness auto
termination
  by (relation "measure id") auto

declare digit_chars.simps [simp del]

text \<open>\<open>String(n)\<close> for an integer \<open>n\<close> of magnitude up to \<open>2^53\<close>: its decimal digits.\<close>

definition number_text :: "int \<Rightarrow> jsstring" where
  "number_text n = (if n < 0 then 45 # digit_chars (nat (- n)) else digit_chars (nat n))"

text \<open>What a template literal \<open>`${v}`\<close> interpolates for a value \<open>v\<close>.\<close>

fun js_to_string :: "jsval \<Rightarrow> jsstring" where
  "js_to_string (JNum n) = number_text n"
| "js_to_string (JStr s) = s"
| "js_to_string (JBool b) = (if b then str ''true'' else str ''false'')"
| "js_to_string JNull = str ''null''"

text \<open>
  The JavaScript expression \<open>v + 1\<close>: numeric addition for a number (exact while the
  sum is of magnitude up to \<open>2^53\<close>), concatenation for a string; \<open>true\<close>, \<open>false\<close> and
  \<open>null\<close> are coerced to 1, 0 and 0.
\<close>

fun js_add_one :: "jsval \<Rightarrow> jsval" where
  "js_add_one (JNum n) = JNum (n + 1)"
| "js_add_one (JStr s) = JStr (s @ str ''1'')"
| "js_add_one (JBool b) = JNum (if b then 2 else 1)"
| "js_add_one JNull = JNum 1"

section \<open>Expression trees of the parser\<close>

text \<open>
  The nodes \<open>math.parse\<close> returns, with the fields \<open>integrate\<close> reads: \<open>type\<close> (the
  constructor), \<open>value\<close>, \<open>name\<close>, \<open>op\<close> and \<open>args\<close>.  \<open>OtherNode\<close> stands for every
  node type the solver never looks into, tagged with its type name.  The parser reads
  a minus sign in front of a number as the unary operator: for \<open>-1\<close> it returns an
  \<open>OperatorNode\<close> with \<open>op\<close> \<open>-\<close> and the single argument \<open>ConstantNode 1\<close>, never a
  \<open>ConstantNode\<close> of negative value.
\<close>

datatype node =
    ConstantNode jsval
  | SymbolNode jsstring
  | OperatorNode jsstring "node list"
  | FunctionNode jsstring "node list"
  | ParenthesisNode node
  | OtherNode jsstring

text \<open>\<open>args[i]\<close>: reading past the end of a JavaScript array gives \<open>undefined\<close>.\<close>

definition arg :: "node list \<Rightarrow> nat \<Rightarrow> node option" where
  "arg args i = (if i < length args then Some (args ! i) else None)"

section \<open>The integration helper\<close>

text \<open>
  \<open>integrate\<close> (app.js) is a chain of four guarded blocks, each of which returns
  \<open>math.parse\<close> of a template string, followed by a \<open>throw\<close>.  Each block is modelled by
  a function that gives the template text when the block returns and \<open>None\<close> when
  control falls through to the next block.
\<close>

text \<open>Polynomial integration, \<open>x^n\<close>.\<close>

definition rule_power :: "node \<Rightarrow> jsstring \<Rightarrow> jsstring option" where
  "rule_power parsed variable =
    (case parsed of
       OperatorNode op args \<Rightarrow>
         if op = str ''^'' then
           (case arg args 0 of
              Some (SymbolNode name) \<Rightarrow>
                if name = variable then
                  (case arg args 1 of
                     Some (ConstantNode (JNum n)) \<Rightarrow>
                       (let newExp = n + 1 in
                        if newExp = 0 then Some (str ''ln('' @ variable @ str '')'')
                        else Some (str ''('' @ variable @ str ''^'' @ number_text newExp
                                   @ str '')/'' @ number_text newExp))
                   | _ \<Rightarrow> None)
                else None
            | _ \<Rightarrow> None)
         else None
     | _ \<Rightarrow> None)"

text \<open>Multiplication \<open>c*x^n\<close>, the constant on the left.  The exponent's value is not
  tested for being a number here.\<close>

definition rule_const_power :: "node \<Rightarrow> jsstring \<Rightarrow> jsstring option" where
  "rule_const_power parsed variable =
    (case parsed of
       OperatorNode op args \<Rightarrow>
         if op = str ''*'' then
           (case (arg args 0, arg args 1) of
              (Some (ConstantNode coeff), Some (OperatorNode rop rargs)) \<Rightarrow>
                if rop = str ''^'' then
                  (case (arg rargs 0, arg rargs 1) of
                     (Some (SymbolNode name), Some (ConstantNode ev)) \<Rightarrow>
                       if name = variable then
                         (let newExp = js_add_one ev in
                          if newExp = JNum 0
                          then Some (js_to_string coeff @ str '' * ln('' @ variable @ str '')'')
                          else Some (str ''('' @ js_to_string coeff @ str '' * '' @ variable
                                     @ str ''^'' @ js_to_string newExp @ str '')/''
                                     @ js_to_string newExp))
                       else None
                   | _ \<Rightarrow> None)
                else None
            | _ \<Rightarrow> None)
         else None
     | _ \<Rightarrow> None)"

text \<open>The bare variable \<open>x\<close>.\<close>

definition rule_symbol :: "node \<Rightarrow> jsstring \<Rightarrow> jsstring option" where
  "rule_symbol parsed variable =
    (case parsed of
       SymbolNode name \<Rightarrow>
         if name = variable then Some (str ''('' @ variable @ str ''^2)/2'') else None
     | _ \<Rightarrow> None)"

text \<open>A constant times the variable, in either order; \<open>coeff\<close> is the value of
  whichever operand is the constant.\<close>

definition rule_const_symbol :: "node \<Rightarrow> jsstring \<Rightarrow> jsstring option" where
  "rule_const_symbol parsed variable =
    (case parsed of
       OperatorNode op args \<Rightarrow>
         if op = str ''*'' then
           (case (arg args 0, arg args 1) of
              (Some (ConstantNode coeff), Some (SymbolNode name)) \<Rightarrow>
                if name = variable
                then Some (str ''('' @ js_to_string coeff @ str '' * '' @ variable @ str ''^2)/2'')
                else None
            | (Some (SymbolNode name), Some (ConstantNode coeff)) \<Rightarrow>
                if name = variable
                then Some (str ''('' @ js_to_string coeff @ str '' * '' @ variable @ str ''^2)/2'')
                else None
            | _ \<Rightarrow> None)
         else None
     | _ \<Rightarrow> None)"

text \<open>The message of the final \<open>throw\<close>.\<close>

definition unsupported :: "jsstring \<Rightarrow> js_error" where
  "unsupported expression =
     Error (str ''Integration not yet supported for: '' @ expression
            @ str ''. Try: x, x^2, x^3, 2*x, etc.'')"

text \<open>
  \<open>integrate\<close>, over the parser it calls.  An exception of \<open>math.parse\<close>, on the
  expression or on a template, leaves the function (the \<open>catch\<close> rethrows it).
\<close>

definition integrate ::
    "(jsstring \<Rightarrow> js_error + node) \<Rightarrow> jsstring \<Rightarrow> jsstring \<Rightarrow> js_error + node" where
  "integrate math_parse expression variable =
    (case math_parse expression of
       Inl e \<Rightarrow> Inl e
     | Inr parsed \<Rightarrow>
        (case rule_power parsed variable of
           Some t \<Rightarrow> math_parse t
         | None \<Rightarrow>
        (case rule_const_power parsed variable of
           Some t \<Rightarrow> math_parse t
         | None \<Rightarrow>
        (case rule_symbol parsed variable of
           Some t \<Rightarrow> math_parse t
         | None \<Rightarrow>
        (case rule_const_symbol parsed variable of
           Some t \<Rightarrow> math_parse t
         | None \<Rightarrow> Inl (unsupported expression))))))"

section \<open>The rule table read as a list\<close>

text \<open>
  The four blocks of \<open>integrate\<close> named as rules, and \<open>integrate\<close> with the blocks
  tried in a given order: the first rule that recognises the tree gives the template,
  and the final \<open>throw\<close> is reached when none does.  \<open>integrate_in_order\<close> is the
  spec's rule table; it serves to compare other orders with the order of the source.
\<close>

datatype rule_id = PowerRule | ConstPowerRule | SymbolRule | ConstSymbolRule

fun rule :: "rule_id \<Rightarrow> node \<Rightarrow> jsstring \<Rightarrow> jsstring option" where
  "rule PowerRule = rule_power"
| "rule ConstPowerRule = rule_const_power"
| "rule SymbolRule = rule_symbol"
| "rule ConstSymbolRule = rule_const_symbol"

fun first_match :: "rule_id list \<Rightarrow> node \<Rightarrow> jsstring \<Rightarrow> jsstring option" where
  "first_match [] parsed variable = None"
| "first_match (r # rs) parsed variable =
     (case rule r parsed variable of
        Some t \<Rightarrow> Some t
      | None \<Rightarrow> first_match rs parsed variable)"

definition integrate_in_order ::
    "rule_id list \<Rightarrow> (jsstring \<Rightarrow> js_error + node) \<Rightarrow> jsstring \<Rightarrow> jsstring \<Rightarrow> js_error + node" where
  "integrate_in_order order math_parse expression variable =
    (case math_parse expression of
       Inl e \<Rightarrow> Inl e
     | Inr parsed \<Rightarrow>
        (case first_match order parsed variable of
           Some t \<Rightarrow> math_parse t
         | None \<Rightarrow> Inl (unsupported expression)))"

section \<open>Text recognition in \<open>solveInput\<close>\<close>

definition INTEGRAL :: nat where
  "INTEGRAL = 0x222B"

text \<open>
  The code units that \<open>\s\<close> matches and \<open>trim\<close> removes (ECMAScript white space and
  line terminators), those that \<open>.\<close> does not match (the line terminators), and
  \<open>[a-zA-Z]\<close>.
\<close>

definition is_space :: "nat \<Rightarrow> bool" where
  "is_space c =
     (c \<in> set [9, 10, 11, 12, 13, 32, 0xA0, 0x1680, 0x2028, 0x2029, 0x202F, 0x205F, 0x3000, 0xFEFF]
      \<or> (0x2000 \<le> c \<and> c \<le> 0x200A))"

definition is_line_terminator :: "nat \<Rightarrow> bool" where
  "is_line_terminator c = (c \<in> set [10, 13, 0x2028, 0x2029])"

definition is_letter :: "nat \<Rightarrow> bool" where
  "is_letter c = ((65 \<le> c \<and> c \<le> 90) \<or> (97 \<le> c \<and> c \<le> 122))"

definition trim :: "jsstring \<Rightarrow> jsstring" where
  "trim s = rev (dropWhile is_space (rev (dropWhile is_space s)))"

definition startsWith :: "jsstring \<Rightarrow> jsstring \<Rightarrow> bool" where
  "startsWith s p = (take (length p) s = p)"

text \<open>
  \<open>expr.match(/^\<integral>\s*(.*?)\s*d([a-zA-Z])$/)\<close>, giving the two groups.  The pattern is
  anchored at both ends, so the last two code units are \<open>d\<close> and a letter; of what
  lies between the sign and them, the greedy \<open>\s*\<close> on either side take the blank
  margins and the lazy group takes the rest, which \<open>.\<close> must match throughout (no
  line terminator).
\<close>

definition match_integral :: "jsstring \<Rightarrow> (jsstring \<times> jsstring) option" where
  "match_integral expr =
    (case expr of
       [] \<Rightarrow> None
     | c # rest \<Rightarrow>
        if c = INTEGRAL then
          (case rev rest of
             letter # d # between \<Rightarrow>
               if d = 100 \<and> is_letter letter then
                 (let body = trim (rev between) in
                  if list_ex is_line_terminator body then None else Some (body, [letter]))
               else None
           | _ \<Rightarrow> None)
        else None)"

text \<open>
  \<open>expr.match(/^d\/d([a-zA-Z])\s+(.*)$/)\<close>: \<open>d/d\<close>, a letter, at least one blank (the
  greedy \<open>\s+\<close> takes them all), and the rest up to the end, free of line terminators.
\<close>

definition match_derivative :: "jsstring \<Rightarrow> (jsstring \<times> jsstring) option" where
  "match_derivative expr =
    (case expr of
       d1 # slash # d2 # letter # blank # rest \<Rightarrow>
         if d1 = 100 \<and> slash = 47 \<and> d2 = 100 \<and> is_letter letter \<and> is_space blank then
           (let body = dropWhile is_space rest in
            if list_ex is_line_terminator body then None else Some ([letter], body))
         else None
     | _ \<Rightarrow> None)"

text \<open>
  The two patterns read as sets of strings.  Whether an input matches does not depend
  on how the greedy and lazy quantifiers share the blanks; \<open>match_integral\<close> and
  \<open>match_derivative\<close> succeed on exactly these strings (lemmas
  \<open>match_integral_iff_pattern\<close> and \<open>match_derivative_iff_pattern\<close>).
\<close>

definition integral_pattern :: "jsstring \<Rightarrow> bool" where
  "integral_pattern expr =
    (\<exists>blank1 body blank2 letter.
       expr = [INTEGRAL] @ blank1 @ body @ blank2 @ [100, letter] \<and>
       list_all is_space blank1 \<and> \<not> list_ex is_line_terminator body \<and>
       list_all is_space blank2 \<and> is_letter letter)"

definition derivative_pattern :: "jsstring \<Rightarrow> bool" where
  "derivative_pattern expr =
    (\<exists>letter blank body.
       expr = str ''d/d'' @ [letter] @ blank @ body \<and> is_letter letter \<and>
       blank \<noteq> [] \<and> list_all is_space blank \<and> \<not> list_ex is_line_terminator body)"

section \<open>The dispatcher \<open>solveInput\<close>\<close>

text \<open>
  The global \<open>math\<close> is either undefined (\<open>None\<close>) or the mathjs object.  Of that
  object the solver probes \<open>parse\<close>, \<open>derivative\<close> and \<open>simplify\<close> with \<open>typeof\<close> (a
  field is \<open>None\<close> when it is not a function) and calls \<open>toString\<close> on nodes;
  \<open>integral\<close> is read by the older copy of the component only.  Each function may
  throw.
\<close>

record mathjs =
  parse :: "(jsstring \<Rightarrow> js_error + node) option"
  derivative :: "(jsstring \<Rightarrow> jsstring \<Rightarrow> js_error + node) option"
  simplify :: "(node \<Rightarrow> js_error + node) option"
  integral :: "(jsstring \<Rightarrow> jsstring \<Rightarrow> js_error + node) option"
  toString :: "node \<Rightarrow> jsstring"

text \<open>The component state \<open>solveInput\<close> reads and writes.\<close>

record ui_state =
  input :: jsstring
  showKeyboard :: bool
  result :: jsstring

definition setResult :: "jsstring \<Rightarrow> ui_state \<Rightarrow> ui_state" where
  "setResult r s = s\<lparr>result := r\<rparr>"

text \<open>\<open>try { body } catch (e) { handler }\<close>; \<open>Inl\<close> is an exception on its way out.\<close>

definition try_catch :: "(js_error + 'a) \<Rightarrow> (js_error \<Rightarrow> js_error + 'a) \<Rightarrow> js_error + 'a" where
  "try_catch body handler = (case body of Inl e \<Rightarrow> handler e | Inr x \<Rightarrow> Inr x)"

text \<open>
  "Try to simplify if available, otherwise just convert to string": the same lines
  follow \<open>integrate\<close> and \<open>math.derivative\<close>.
\<close>

definition simplified_text :: "mathjs \<Rightarrow> node \<Rightarrow> js_error + jsstring" where
  "simplified_text m tree =
    (case simplify m of
       Some math_simplify \<Rightarrow>
         (case math_simplify tree of
            Inl e \<Rightarrow> Inl e
          | Inr simpler \<Rightarrow> Inr (toString m simpler))
     | None \<Rightarrow> Inr (toString m tree))"

text \<open>
  \<open>solveInput\<close> of app.js.  The result \<open>Inr s'\<close> is the state after the call; \<open>Inl e\<close>
  would be an exception that reaches the caller.
\<close>

definition solveInput :: "mathjs option \<Rightarrow> ui_state \<Rightarrow> js_error + ui_state" where
  "solveInput math s =
    try_catch
      (let expr = trim (input s) in
       if startsWith expr [INTEGRAL] then
         (case match_integral expr of
            Some (group1, variable) \<Rightarrow>
              (let body = trim group1 in
               case math of
                 None \<Rightarrow>
                   Inr (setResult
                     (str ''Error: MathJS is not loaded. Please check your internet connection.'') s)
               | Some m \<Rightarrow>
                   (case parse m of
                      None \<Rightarrow>
                        Inr (setResult
                          (str ''Error: MathJS parse function is not available. The browser build may be incomplete.'') s)
                    | Some math_parse \<Rightarrow>
                        try_catch
                          (case integrate math_parse body variable of
                             Inl e \<Rightarrow> Inl e
                           | Inr integral_tree \<Rightarrow>
                               (case simplified_text m integral_tree of
                                  Inl e \<Rightarrow> Inl e
                                | Inr r \<Rightarrow> Inr (setResult r s)))
                          (\<lambda>e. Inr (setResult (str ''Error: '' @ message e) s))))
          | None \<Rightarrow>
              Inr (setResult
                (str ''Invalid integral format. Use: '' @ [INTEGRAL] @ str '' expression dx (e.g., ''
                 @ [INTEGRAL] @ str '' x^2 dx)'') s))
       else if startsWith expr (str ''d/d'') then
         (case match_derivative expr of
            Some (variable, group2) \<Rightarrow>
              (let body = trim group2 in
               case math of
                 None \<Rightarrow>
                   Inr (setResult
                     (str ''Error: MathJS is not loaded. Please check your internet connection.'') s)
               | Some m \<Rightarrow>
                   (case derivative m of
                      None \<Rightarrow>
                        Inr (setResult (str ''Error: MathJS derivative function is not available.'') s)
                    | Some math_derivative \<Rightarrow>
                        try_catch
                          (case math_derivative body variable of
                             Inl e \<Rightarrow> Inl e
                           | Inr derivative_tree \<Rightarrow>
                               (case simplified_text m derivative_tree of
                                  Inl e \<Rightarrow> Inl e
                                | Inr r \<Rightarrow> Inr (setResult r s)))
                          (\<lambda>e. Inr (setResult (str ''Error: '' @ message e) s))))
          | None \<Rightarrow>
              Inr (setResult
                (str ''Invalid derivative format. Use: d/dx expression (e.g., d/dx x^2)'') s))
       else
         Inr (setResult
           (str ''Please start your input with '' @ [INTEGRAL]
            @ str '' (for integral) or d/dx (for derivative).'') s))
      (\<lambda>e. Inr (setResult (str ''Error: '' @ message e) s))"

text \<open>
  \<open>solveInput\<close> of the older copy of the component (src/unnamed/part_000).  It has
  no \<open>integrate\<close>: it calls \<open>math.integral\<close>, and it passes the groups on untrimmed
  and does not simplify.  It tests \<open>math.integral\<close> and \<open>math.derivative\<close> for truth
  only; a field that is present is taken to be a function here, and the tree
  \<open>math.derivative\<close> returns, an object, is truthy.  Neither \<open>if (match)\<close> has an
  \<open>else\<close>: an input with a recognised prefix that the pattern does not match sets no
  result.
\<close>

definition solveInput_part_000 :: "mathjs option \<Rightarrow> ui_state \<Rightarrow> js_error + ui_state" where
  "solveInput_part_000 math s =
    try_catch
      (let expr = trim (input s) in
       if startsWith expr [INTEGRAL] then
         (case match_integral expr of
            Some (body, variable) \<Rightarrow>
              (case math of
                 Some m \<Rightarrow>
                   (case integral m of
                      Some math_integral \<Rightarrow>
                        (case math_integral body variable of
                           Inl e \<Rightarrow> Inl e
                         | Inr t \<Rightarrow> Inr (setResult (toString m t) s))
                    | None \<Rightarrow>
                        Inr (setResult
                          (str ''Integral solving requires MathJS with '' @ [34] @ str ''integral''
                           @ [34] @ str '' extension.'') s))
               | None \<Rightarrow>
                   Inr (setResult
                     (str ''Integral solving requires MathJS with '' @ [34] @ str ''integral''
                           @ [34] @ str '' extension.'') s))
          | None \<Rightarrow> Inr s)
       else if startsWith expr (str ''d/d'') then
         (case match_derivative expr of
            Some (variable, body) \<Rightarrow>
              (case math of
                 Some m \<Rightarrow>
                   (case derivative m of
                      Some math_derivative \<Rightarrow>
                        (case math_derivative body variable of
                           Inl e \<Rightarrow> Inl e
                         | Inr d \<Rightarrow> Inr (setResult (toString m d) s))
                    | None \<Rightarrow> Inr (setResult (str ''Differentiation requires MathJS.'') s))
               | None \<Rightarrow> Inr (setResult (str ''Differentiation requires MathJS.'') s))
          | None \<Rightarrow> Inr s)
       else
         Inr (setResult
           (str ''Please start your input with '' @ [INTEGRAL]
            @ str '' (for integral) or d/dx (for derivative).'') s))
      (\<lambda>e. Inr (setResult (str ''Error: '' @ message e) s))"

section \<open>Test doubles\<close>

text \<open>
  The parser, the differentiator, the simplifier and the printer belong to mathjs.
  The theorems below hold for every such function; to run the solver on concrete
  inputs, these stand-ins know a finite table of texts, each with the tree mathjs
  returns for it, and throw on everything else.
\<close>

abbreviation number :: "int \<Rightarrow> node" where
  "number n \<equiv> ConstantNode (JNum n)"

abbreviation symbol :: "string \<Rightarrow> node" where
  "symbol s \<equiv> SymbolNode (str s)"

abbreviation binary :: "string \<Rightarrow> node \<Rightarrow> node \<Rightarrow> node" where
  "binary op l r \<equiv> OperatorNode (str op) [l, r]"

abbreviation unary_minus :: "node \<Rightarrow> node" where
  "unary_minus a \<equiv> OperatorNode (str ''-'') [a]"

definition sample_table :: "(string \<times> node) list" where
  "sample_table =
    [(''x'', symbol ''x''),
     (''x^2'', binary ''^'' (symbol ''x'') (number 2)),
     (''x^0'', binary ''^'' (symbol ''x'') (number 0)),
     (''x^-1'', binary ''^'' (symbol ''x'') (unary_minus (number 1))),
     (''x^-2'', binary ''^'' (symbol ''x'') (unary_minus (number 2))),
     (''3*x^2'', binary ''*'' (number 3) (binary ''^'' (symbol ''x'') (number 2))),
     (''0*x^2'', binary ''*'' (number 0) (binary ''^'' (symbol ''x'') (number 2))),
     (''3*x^-1'',
        binary ''*'' (number 3) (binary ''^'' (symbol ''x'') (unary_minus (number 1)))),
     (''0*x^-2'',
        binary ''*'' (number 0) (binary ''^'' (symbol ''x'') (unary_minus (number 2)))),
     (''x^2*3'', binary ''*'' (binary ''^'' (symbol ''x'') (number 2)) (number 3)),
     (''5*x'', binary ''*'' (number 5) (symbol ''x'')),
     (''x*5'', binary ''*'' (symbol ''x'') (number 5)),
     (''sin(x)'', FunctionNode (str ''sin'') [symbol ''x'']),
     (''(x^1)/1'',
        binary ''/'' (ParenthesisNode (binary ''^'' (symbol ''x'') (number 1))) (number 1)),
     (''(x^2)/2'',
        binary ''/'' (ParenthesisNode (binary ''^'' (symbol ''x'') (number 2))) (number 2)),
     (''(x^3)/3'',
        binary ''/'' (ParenthesisNode (binary ''^'' (symbol ''x'') (number 3))) (number 3)),
     (''(5 * x^2)/2'',
        binary ''/''
          (ParenthesisNode (binary ''*'' (number 5) (binary ''^'' (symbol ''x'') (number 2))))
          (number 2)),
     (''(3 * x^3)/3'',
        binary ''/''
          (ParenthesisNode (binary ''*'' (number 3) (binary ''^'' (symbol ''x'') (number 3))))
          (number 3)),
     (''(0 * x^3)/3'',
        binary ''/''
          (ParenthesisNode (binary ''*'' (number 0) (binary ''^'' (symbol ''x'') (number 3))))
          (number 3))]"

definition sample_parse :: "jsstring \<Rightarrow> js_error + node" where
  "sample_parse s =
     (case map_of (map (\<lambda>(k, t). (str k, t)) sample_table) s of
        Some t \<Rightarrow> Inr t
      | None \<Rightarrow> Inl (Error (str ''Unexpected input: '' @ s)))"

definition sample_derivative :: "jsstring \<Rightarrow> jsstring \<Rightarrow> js_error + node" where
  "sample_derivative body variable =
     (if body = str ''x^2'' \<and> variable = str ''x''
      then Inr (binary ''*'' (number 2) (symbol ''x''))
      else Inl (Error (str ''Unexpected input: '' @ body)))"

definition sample_simplify :: "node \<Rightarrow> js_error + node" where
  "sample_simplify tree =
     (if tree = binary ''/'' (ParenthesisNode (binary ''^'' (symbol ''x'') (number 3))) (number 3)
      then Inr (binary ''/'' (binary ''^'' (symbol ''x'') (number 3)) (number 3))
      else Inr tree)"

definition failing_simplify :: "node \<Rightarrow> js_error + node" where
  "failing_simplify tree = Inl (Error (str ''Cannot simplify''))"

definition sample_toString :: "node \<Rightarrow> jsstring" where
  "sample_toString tree =
     (if tree = binary ''/'' (ParenthesisNode (binary ''^'' (symbol ''x'') (number 3))) (number 3)
      then str ''(x ^ 3) / 3''
      else if tree = binary ''/'' (binary ''^'' (symbol ''x'') (number 3)) (number 3)
      then str ''x ^ 3 / 3''
      else if tree = binary ''*'' (number 2) (symbol ''x'')
      then str ''2 * x''
      else str ''?'')"

definition sample_math :: mathjs where
  "sample_math =
     \<lparr>parse = Some sample_parse, derivative = Some sample_derivative,
      simplify = Some sample_simplify, integral = None, toString = sample_toString\<rparr>"

definition typed :: "jsstring \<Rightarrow> ui_state" where
  "typed text = \<lparr>input = text, showKeyboard = True, result = []\<rparr>"

section \<open>Basic facts\<close>

lemma str_eq_iff [simp]: "str a = str b \<longleftrightarrow> a = b"
  unfolding str_def using inj_of_char [where ?'a = nat] by simp

lemma str_append: "str (a @ b) = str a @ str b"
  by (simp add: str_def)

lemma arg_simps [simp]:
  "arg [] i = None"
  "arg (a # as) 0 = Some a"
  "arg (a # as) (Suc i) = arg as i"
  by (simp_all add: arg_def)

lemma arg_1 [simp]: "arg (a # as) 1 = arg as 0"
  by (simp add: arg_def)

lemma arg_0_Some: "arg args 0 = Some a \<longleftrightarrow> (\<exists>as. args = a # as)"
  by (cases args) (auto simp: arg_def)

lemma js_add_one_zero: "js_add_one ev = JNum 0 \<longleftrightarrow> ev = JNum (- 1)"
  by (cases ev) auto

subsection \<open>Decimal text\<close>

lemma number_text_small:
  "number_text 0 = str ''0''" "number_text 1 = str ''1''" "number_text 2 = str ''2''"
  "number_text 3 = str ''3''" "number_text 5 = str ''5''"
  by (simp_all add: number_text_def digit_chars.simps str_def)

subsection \<open>Each block on the shape it is written for\<close>

lemma rule_power_power:
  "rule_power (OperatorNode (str ''^'') [SymbolNode v, ConstantNode (JNum n)]) v =
     Some (if n = - 1 then str ''ln('' @ v @ str '')''
           else str ''('' @ v @ str ''^'' @ number_text (n + 1) @ str '')/'' @ number_text (n + 1))"
  by (simp add: rule_power_def Let_def)

lemma rule_const_power_shape:
  "rule_const_power
     (OperatorNode (str ''*'')
        [ConstantNode c, OperatorNode (str ''^'') [SymbolNode v, ConstantNode ev]]) v =
     Some (if ev = JNum (- 1) then js_to_string c @ str '' * ln('' @ v @ str '')''
           else str ''('' @ js_to_string c @ str '' * '' @ v @ str ''^''
                @ js_to_string (js_add_one ev) @ str '')/'' @ js_to_string (js_add_one ev))"
  by (simp add: rule_const_power_def Let_def js_add_one_zero)

lemma rule_symbol_shape:
  "rule_symbol (SymbolNode v) v = Some (str ''('' @ v @ str ''^2)/2'')"
  by (simp add: rule_symbol_def)


subsection \<open>What each block requires of the tree\<close>

lemma rule_power_SomeD:
  "rule_power t v = Some a \<Longrightarrow> \<exists>args. t = OperatorNode (str ''^'') args"
  by (auto simp: rule_power_def split: node.splits if_splits)

lemma rule_const_power_SomeD:
  "rule_const_power t v = Some a \<Longrightarrow>
     \<exists>c rargs rest. t = OperatorNode (str ''*'') (ConstantNode c # OperatorNode (str ''^'') rargs # rest)"
  by (auto simp: rule_const_power_def arg_def nth_Cons' neq_Nil_conv
      split: node.splits if_splits option.splits list.splits)

lemma rule_symbol_SomeD:
  "rule_symbol t v = Some a \<Longrightarrow> t = SymbolNode v"
  by (auto simp: rule_symbol_def split: node.splits if_splits)

lemma rule_const_symbol_SomeD:
  "rule_const_symbol t v = Some a \<Longrightarrow>
     (\<exists>c rest. t = OperatorNode (str ''*'') (ConstantNode c # SymbolNode v # rest)) \<or>
     (\<exists>c rest. t = OperatorNode (str ''*'') (SymbolNode v # ConstantNode c # rest))"
  by (auto simp: rule_const_symbol_def arg_def nth_Cons' neq_Nil_conv
      split: node.splits if_splits option.splits list.splits)

lemma rule_disjoint:
  "rule r t v = Some a \<Longrightarrow> rule r' t v = Some b \<Longrightarrow> r = r'"
  by (cases r; cases r')
     (auto dest!: rule_power_SomeD rule_const_power_SomeD rule_symbol_SomeD rule_const_symbol_SomeD)

subsection \<open>The first match does not depend on the order\<close>

lemma first_match_None:
  "(\<And>r. r \<in> set order \<Longrightarrow> rule r t v = None) \<Longrightarrow> first_match order t v = None"
  by (induction order) auto

lemma first_match_Some:
  "r \<in> set order \<Longrightarrow> rule r t v = Some a \<Longrightarrow> first_match order t v = Some a"
proof (induction order)
  case Nil
  then show ?case by simp
next
  case (Cons r' rs)
  show ?case
  proof (cases "rule r' t v")
    case None
    with Cons show ?thesis by auto
  next
    case (Some b)
    with Cons.prems(2) have "r' = r" by (auto dest: rule_disjoint)
    with Cons.prems(2) show ?thesis by simp
  qed
qed

lemma rule_id_UNIV: "(UNIV :: rule_id set) = {PowerRule, ConstPowerRule, SymbolRule, ConstSymbolRule}"
  by (auto intro: rule_id.exhaust)

lemma first_match_all:
  assumes "set order = UNIV"
  shows "first_match order t v =
           first_match [PowerRule, ConstPowerRule, SymbolRule, ConstSymbolRule] t v"
proof (cases "\<exists>r a. rule r t v = Some a")
  case True
  then obtain r a where ra: "rule r t v = Some a" by blast
  have "first_match order t v = Some a"
    using assms ra by (intro first_match_Some [of r]) auto
  moreover have "first_match [PowerRule, ConstPowerRule, SymbolRule, ConstSymbolRule] t v = Some a"
    using ra by (intro first_match_Some [of r]) (cases r; simp)
  ultimately show ?thesis by simp
next
  case False
  then have none: "rule r t v = None" for r by (metis option.exhaust)
  have "first_match rs t v = None" for rs
    by (rule first_match_None) (rule none)
  then show ?thesis by simp
qed

lemma integrate_as_table:
  "integrate math_parse expression variable =
     integrate_in_order [PowerRule, ConstPowerRule, SymbolRule, ConstSymbolRule]
       math_parse expression variable"
  by (simp add: integrate_def integrate_in_order_def split: sum.splits option.splits)

subsection \<open>Prefixes and patterns\<close>

lemma startsWith_integral_iff: "startsWith e [INTEGRAL] \<longleftrightarrow> (\<exists>rest. e = INTEGRAL # rest)"
  by (cases e) (auto simp: startsWith_def)

lemma match_integral_startsWith: "match_integral e = Some x \<Longrightarrow> startsWith e [INTEGRAL]"
  by (cases e) (auto simp: match_integral_def startsWith_def split: if_splits)

lemma startsWith_d_not_integral: "startsWith e (str ''d/d'') \<Longrightarrow> \<not> startsWith e [INTEGRAL]"
  by (cases e) (auto simp: startsWith_def str_def INTEGRAL_def)

lemma match_derivative_startsWith: "match_derivative e = Some x \<Longrightarrow> startsWith e (str ''d/d'')"
  by (auto simp: match_derivative_def startsWith_def str_def split: list.splits if_splits)

lemma dropWhile_all: "list_all P xs \<Longrightarrow> dropWhile P (xs @ ys) = dropWhile P ys"
  by (induction xs) auto

lemma dropWhile_all_Nil: "list_all P xs \<Longrightarrow> dropWhile P xs = []"
  by (induction xs) auto

lemma trim_margins:
  assumes "list_all is_space blank1" "list_all is_space blank2"
  shows "trim (blank1 @ body @ blank2) = trim body"
proof (cases "dropWhile is_space body = []")
  case True
  then have "list_all is_space (blank1 @ body @ blank2)"
    using assms by (auto simp: dropWhile_eq_Nil_conv list_all_iff)
  then have all: "dropWhile is_space (blank1 @ body @ blank2) = []"
    by (rule dropWhile_all_Nil)
  show ?thesis unfolding trim_def all True by simp
next
  case False
  then have "dropWhile is_space (body @ blank2) = dropWhile is_space body @ blank2"
    by (auto simp: dropWhile_append dropWhile_eq_Nil_conv)
  moreover have "list_all is_space (rev blank2)"
    using assms(2) by (simp add: list_all_iff)
  ultimately show ?thesis
    using assms(1) by (simp add: trim_def dropWhile_all)
qed

lemma set_trim: "set (trim s) \<subseteq> set s"
proof -
  have "set (dropWhile is_space (rev (dropWhile is_space s))) \<subseteq> set (rev (dropWhile is_space s))"
    by (rule set_dropWhileD [THEN subsetI]) 
  also have "\<dots> \<subseteq> set s"
    by (auto dest: set_dropWhileD)
  finally show ?thesis by (simp add: trim_def)
qed

lemma trim_decompose:
  "\<exists>blank1 blank2. s = blank1 @ trim s @ blank2 \<and> list_all is_space blank1 \<and> list_all is_space blank2"
proof -
  let ?t = "dropWhile is_space s"
  have "s = takeWhile is_space s @ ?t" by simp
  moreover have "rev ?t = takeWhile is_space (rev ?t) @ dropWhile is_space (rev ?t)" by simp
  then have "?t = trim s @ rev (takeWhile is_space (rev ?t))"
    by (metis rev_append rev_rev_ident trim_def)
  moreover have "list_all is_space (takeWhile is_space s)"
    by (auto simp: list_all_iff dest: set_takeWhileD)
  moreover have "list_all is_space (rev (takeWhile is_space (rev ?t)))"
    by (auto simp: list_all_iff dest: set_takeWhileD)
  ultimately show ?thesis by metis
qed

lemma match_integral_iff_pattern: "match_integral expr \<noteq> None \<longleftrightarrow> integral_pattern expr"
proof
  assume "match_integral expr \<noteq> None"
  then obtain rest letter between where
    e: "expr = INTEGRAL # rest" and r: "rev rest = letter # 100 # between" and
    l: "is_letter letter" and b: "\<not> list_ex is_line_terminator (trim (rev between))"
    by (auto simp: match_integral_def Let_def split: list.splits if_splits)
  from r have "rest = rev between @ [100, letter]"
    by (metis append.assoc append_Cons append_Nil rev.simps(2) rev_rev_ident)
  moreover obtain blank1 blank2 where
    "rev between = blank1 @ trim (rev between) @ blank2"
    "list_all is_space blank1" "list_all is_space blank2"
    using trim_decompose by blast
  ultimately show "integral_pattern expr"
    unfolding integral_pattern_def using e l b
    by (intro exI [of _ blank1] exI [of _ "trim (rev between)"] exI [of _ blank2]
        exI [of _ letter]) simp
next
  assume "integral_pattern expr"
  then obtain blank1 body blank2 letter where
    e: "expr = [INTEGRAL] @ blank1 @ body @ blank2 @ [100, letter]" and
    s: "list_all is_space blank1" "list_all is_space blank2" and
    b: "\<not> list_ex is_line_terminator body" and l: "is_letter letter"
    by (auto simp: integral_pattern_def)
  have "\<not> list_ex is_line_terminator (trim (blank1 @ body @ blank2))"
    using b set_trim [of body] by (auto simp: trim_margins [OF s] list_ex_iff)
  with e l show "match_integral expr \<noteq> None"
    by (simp add: match_integral_def Let_def)
qed

lemma match_derivative_iff_pattern: "match_derivative expr \<noteq> None \<longleftrightarrow> derivative_pattern expr"
proof
  assume "match_derivative expr \<noteq> None"
  then obtain letter blank rest where
    e: "expr = 100 # 47 # 100 # letter # blank # rest" and l: "is_letter letter" and
    s: "is_space blank" and b: "\<not> list_ex is_line_terminator (dropWhile is_space rest)"
    by (auto simp: match_derivative_def Let_def split: list.splits if_splits)
  have "rest = takeWhile is_space rest @ dropWhile is_space rest" by simp
  moreover have "list_all is_space (takeWhile is_space rest)"
    by (auto simp: list_all_iff dest: set_takeWhileD)
  ultimately show "derivative_pattern expr"
    unfolding derivative_pattern_def using e l s b
    by (intro exI [of _ letter] exI [of _ "blank # takeWhile is_space rest"]
        exI [of _ "dropWhile is_space rest"]) (simp add: str_def)
next
  assume "derivative_pattern expr"
  then obtain letter blank body where
    e: "expr = str ''d/d'' @ [letter] @ blank @ body" and l: "is_letter letter" and
    s: "blank \<noteq> []" "list_all is_space blank" and b: "\<not> list_ex is_line_terminator body"
    by (auto simp: derivative_pattern_def)
  from s obtain c blank' where c: "blank = c # blank'" "is_space c" "list_all is_space blank'"
    by (cases blank) auto
  have "\<not> list_ex is_line_terminator (dropWhile is_space (blank' @ body))"
    using b c(3) by (auto simp: dropWhile_all list_ex_iff dest: set_dropWhileD)
  with e l c show "match_derivative expr \<noteq> None"
    by (simp add: match_derivative_def Let_def str_def)
qed

lemma match_integral_None_iff: "match_integral expr = None \<longleftrightarrow> \<not> integral_pattern expr"
  using match_integral_iff_pattern [of expr] by blast

lemma match_derivative_None_iff:
  "match_derivative expr = None \<longleftrightarrow> \<not> derivative_pattern expr"
  using match_derivative_iff_pattern [of expr] by blast

subsection \<open>The test doubles on their inputs\<close>

lemma sample_inputs:
  "match_integral (trim (input (typed ([INTEGRAL] @ str '' x^2 dx'')))) = Some (str ''x^2'', str ''x'')"
  "match_integral (trim (input (typed ([INTEGRAL] @ str '' sin(x) dx'')))) = Some (str ''sin(x)'', str ''x'')"
  "match_derivative (trim (input (typed (str ''d/dx x^2'')))) = Some (str ''x'', str ''x^2'')"
  "match_derivative (trim (input (typed (str ''d/dx sin(x)'')))) = Some (str ''x'', str ''sin(x)'')"
  "startsWith (trim (input (typed ([INTEGRAL] @ str '' x^2'')))) [INTEGRAL]"
  "match_integral (trim (input (typed ([INTEGRAL] @ str '' x^2'')))) = None"
  "startsWith (trim (input (typed (str ''d/dx'')))) (str ''d/d'')"
  "match_derivative (trim (input (typed (str ''d/dx'')))) = None"
  "trim (str ''x^2'') = str ''x^2''"
  "trim (str ''sin(x)'') = str ''sin(x)''"
  by (simp_all add: str_def INTEGRAL_def is_space_def is_line_terminator_def is_letter_def
        trim_def startsWith_def match_integral_def match_derivative_def typed_def)

lemma sample_runs:
  "integrate sample_parse (str ''x^2'') (str ''x'') =
     Inr (binary ''/'' (ParenthesisNode (binary ''^'' (symbol ''x'') (number 3))) (number 3))"
  "integrate sample_parse (str ''sin(x)'') (str ''x'') =
     Inl (Error (str ''Integration not yet supported for: sin(x). Try: x, x^2, x^3, 2*x, etc.''))"
  by (simp_all add: integrate_def sample_parse_def sample_table_def rule_power_power
        rule_power_def rule_const_power_def rule_symbol_def rule_const_symbol_def unsupported_def
        number_text_small str_append [symmetric])

section \<open>The integration rules\<close>

text \<open>
  In this section a body "of shape" \<open>v^n\<close> is the tree
  \<open>OperatorNode ^ [SymbolNode v, ConstantNode n]\<close> that the parser returned for the
  expression text, and a result "textually equivalent to" a formula is the parser's
  result on the text of that formula, as \<open>integrate\<close> builds it.
\<close>

subsection \<open>Exponents and coefficients the parser delivers as constants\<close>

text \<open>
  For a literal exponent \<open>n\<close> and a literal coefficient \<open>c\<close>, \<open>integrate\<close> on \<open>v^n\<close>
  returns what the parser makes of \<open>(v^(n+1))/(n+1)\<close> and on \<open>c*v^n\<close> what it makes of
  \<open>(c * v^(n+1))/(n+1)\<close>.  A zero coefficient and a zero exponent take the same
  branches.
\<close>

lemma power_rule_on_literals:
  assumes "safe_literal n" "safe_literal (n + 1)" "safe_literal c"
  shows
  "(math_parse expression = Inr (OperatorNode (str ''^'') [SymbolNode v, ConstantNode (JNum n)]) \<longrightarrow>
      integrate math_parse expression v =
        math_parse (str ''('' @ v @ str ''^'' @ number_text (n + 1) @ str '')/'' @ number_text (n + 1))) \<and>
   (math_parse expression =
        Inr (OperatorNode (str ''*'')
              [ConstantNode (JNum c), OperatorNode (str ''^'') [SymbolNode v, ConstantNode (JNum n)]]) \<longrightarrow>
      integrate math_parse expression v =
        math_parse (str ''('' @ number_text c @ str '' * '' @ v @ str ''^'' @ number_text (n + 1)
                    @ str '')/'' @ number_text (n + 1)))"
  using assms
  by (simp add: integrate_def rule_power_def rule_const_power_def Let_def safe_literal_def)

lemma power_rule_examples:
  "integrate sample_parse (str ''x^2'') (str ''x'') =
     Inr (binary ''/'' (ParenthesisNode (binary ''^'' (symbol ''x'') (number 3))) (number 3))"
  "integrate sample_parse (str ''3*x^2'') (str ''x'') =
     Inr (binary ''/''
           (ParenthesisNode (binary ''*'' (number 3) (binary ''^'' (symbol ''x'') (number 3))))
           (number 3))"
  "integrate sample_parse (str ''0*x^2'') (str ''x'') =
     Inr (binary ''/''
           (ParenthesisNode (binary ''*'' (number 0) (binary ''^'' (symbol ''x'') (number 3))))
           (number 3))"
  "integrate sample_parse (str ''x^0'') (str ''x'') =
     Inr (binary ''/'' (ParenthesisNode (binary ''^'' (symbol ''x'') (number 1))) (number 1))"
  using power_rule_on_literals [where n = 2 and c = 3 and math_parse = sample_parse
          and expression = "str ''x^2''" and v = "str ''x''"]
        power_rule_on_literals [where n = 2 and c = 3 and math_parse = sample_parse
          and expression = "str ''3*x^2''" and v = "str ''x''"]
        power_rule_on_literals [where n = 2 and c = 0 and math_parse = sample_parse
          and expression = "str ''0*x^2''" and v = "str ''x''"]
        power_rule_on_literals [where n = 0 and c = 0 and math_parse = sample_parse
          and expression = "str ''x^0''" and v = "str ''x''"]
  by (simp_all add: safe_literal_def sample_parse_def sample_table_def number_text_small
        str_append [symmetric])

subsection \<open>Negative exponents\<close>

text \<open>
  The logarithm branches test \<open>newExp === 0\<close>, which is met by a \<open>ConstantNode\<close> of value
  \<open>-1\<close> and by no other value (lemma \<open>js_add_one_zero\<close>).
\<close>

lemma logarithm_branch:
  "(math_parse expression = Inr (OperatorNode (str ''^'') [SymbolNode v, ConstantNode (JNum (- 1))]) \<longrightarrow>
      integrate math_parse expression v = math_parse (str ''ln('' @ v @ str '')'')) \<and>
   (math_parse expression =
        Inr (OperatorNode (str ''*'')
              [ConstantNode c, OperatorNode (str ''^'') [SymbolNode v, ConstantNode (JNum (- 1))]]) \<longrightarrow>
      integrate math_parse expression v =
        math_parse (js_to_string c @ str '' * ln('' @ v @ str '')''))"
  by (simp add: integrate_def rule_power_power rule_power_def rule_const_power_shape)

text \<open>
  The parser never returns such a node.  A negative exponent arrives as the unary
  minus applied to a constant, an \<open>OperatorNode\<close>, and both power blocks require the
  exponent to be a \<open>ConstantNode\<close>: \<open>integrate\<close> throws, whatever the variable, the
  number under the minus sign and the coefficient.
\<close>

lemma integrate_unary_minus_exponent:
  "(math_parse expression =
      Inr (OperatorNode (str ''^'') [SymbolNode v, OperatorNode (str ''-'') [ConstantNode n]]) \<longrightarrow>
    integrate math_parse expression variable = Inl (unsupported expression)) \<and>
   (math_parse expression =
      Inr (OperatorNode (str ''*'')
            [ConstantNode c,
             OperatorNode (str ''^'') [SymbolNode v, OperatorNode (str ''-'') [ConstantNode n]]]) \<longrightarrow>
    integrate math_parse expression variable = Inl (unsupported expression))"
  by (simp add: integrate_def rule_power_def rule_const_power_def rule_symbol_def
        rule_const_symbol_def)

lemma sample_negative_inputs:
  "match_integral (trim (input (typed ([INTEGRAL] @ str '' x^-1 dx'')))) = Some (str ''x^-1'', str ''x'')"
  "match_integral (trim (input (typed ([INTEGRAL] @ str '' 3*x^-1 dx'')))) = Some (str ''3*x^-1'', str ''x'')"
  "match_integral (trim (input (typed ([INTEGRAL] @ str '' x^-2 dx'')))) = Some (str ''x^-2'', str ''x'')"
  "match_integral (trim (input (typed ([INTEGRAL] @ str '' 0*x^-2 dx'')))) = Some (str ''0*x^-2'', str ''x'')"
  "trim (str ''x^-1'') = str ''x^-1''"
  "trim (str ''3*x^-1'') = str ''3*x^-1''"
  "trim (str ''x^-2'') = str ''x^-2''"
  "trim (str ''0*x^-2'') = str ''0*x^-2''"
  by (simp_all add: str_def INTEGRAL_def is_space_def is_line_terminator_def is_letter_def
        trim_def startsWith_def match_integral_def match_derivative_def typed_def)

lemma sample_negative_trees:
  "sample_parse (str ''x^-1'') = Inr (binary ''^'' (symbol ''x'') (unary_minus (number 1)))"
  "sample_parse (str ''3*x^-1'') =
     Inr (binary ''*'' (number 3) (binary ''^'' (symbol ''x'') (unary_minus (number 1))))"
  "sample_parse (str ''x^-2'') = Inr (binary ''^'' (symbol ''x'') (unary_minus (number 2)))"
  "sample_parse (str ''0*x^-2'') =
     Inr (binary ''*'' (number 0) (binary ''^'' (symbol ''x'') (unary_minus (number 2))))"
  by (simp_all add: sample_parse_def sample_table_def)

lemma solveInput_shows_error:
  "match_integral (trim (input s)) = Some (raw, v) \<Longrightarrow> parse m = Some math_parse \<Longrightarrow>
   integrate math_parse (trim raw) v = Inl e \<Longrightarrow>
   solveInput (Some m) s = Inr (setResult (str ''Error: '' @ message e) s)"
  by (simp add: solveInput_def try_catch_def Let_def match_integral_startsWith)

text \<open>
  C1.  The power rule is stated for every number \<open>n\<close> other than \<open>-1\<close>: \<open>v^n\<close> gives
  \<open>(v^(n+1))/(n+1)\<close> and \<open>c*v^n\<close> gives \<open>(c * v^(n+1))/(n+1)\<close>.  The program does so for the
  literal exponents (lemma \<open>power_rule_on_literals\<close>) and not for the negative ones: for
  \<open>n = -2\<close> the parser returns \<open>x ^ (-(2))\<close>, \<open>integrate\<close> throws the unsupported-expression
  error, and the input \<open>\<integral> x^-2 dx\<close> is answered with that error where the rule gives
  \<open>(x^-1)/-1\<close>.
\<close>

theorem integrate_rejects_negative_exponent:
  "sample_parse (str ''x^-2'') = Inr (binary ''^'' (symbol ''x'') (unary_minus (number 2))) \<and>
   integrate sample_parse (str ''x^-2'') (str ''x'') =
     Inl (Error (str ''Integration not yet supported for: x^-2. Try: x, x^2, x^3, 2*x, etc.'')) \<and>
   solveInput (Some sample_math) (typed ([INTEGRAL] @ str '' x^-2 dx'')) =
     Inr (setResult
            (str ''Error: Integration not yet supported for: x^-2. Try: x, x^2, x^3, 2*x, etc.'')
            (typed ([INTEGRAL] @ str '' x^-2 dx'')))"
proof -
  have thrown: "integrate sample_parse (str ''x^-2'') (str ''x'') =
     Inl (Error (str ''Integration not yet supported for: x^-2. Try: x, x^2, x^3, 2*x, etc.''))"
    using integrate_unary_minus_exponent [where math_parse = sample_parse
        and expression = "str ''x^-2''" and v = "str ''x''" and n = "JNum 2"
        and variable = "str ''x''"]
    by (simp add: sample_negative_trees unsupported_def str_append [symmetric])
  show ?thesis
    using thrown
      solveInput_shows_error [where s = "typed ([INTEGRAL] @ str '' x^-2 dx'')"
        and raw = "str ''x^-2''" and v = "str ''x''" and m = sample_math
        and math_parse = sample_parse, OF sample_negative_inputs(3)]
    by (simp add: sample_negative_trees sample_negative_inputs sample_math_def
        str_append [symmetric])
qed

text \<open>
  C2.  The logarithm rule is stated for the exponent \<open>-1\<close>: \<open>v^-1\<close> gives \<open>ln(v)\<close> and
  \<open>c*v^-1\<close> gives \<open>c * ln(v)\<close>.  The program has the branches (lemma \<open>logarithm_branch\<close>)
  and never takes them: for \<open>x^-1\<close> the parser returns \<open>x ^ (-(1))\<close>, whose exponent is
  no constant, so \<open>integrate\<close> throws the unsupported-expression error on \<open>x^-1\<close> and on
  \<open>3*x^-1\<close>, and the inputs \<open>\<integral> x^-1 dx\<close> and \<open>\<integral> 3*x^-1 dx\<close> are answered with that
  error.
\<close>

theorem integrate_rejects_reciprocal:
  "sample_parse (str ''x^-1'') = Inr (binary ''^'' (symbol ''x'') (unary_minus (number 1))) \<and>
   integrate sample_parse (str ''x^-1'') (str ''x'') =
     Inl (Error (str ''Integration not yet supported for: x^-1. Try: x, x^2, x^3, 2*x, etc.'')) \<and>
   integrate sample_parse (str ''3*x^-1'') (str ''x'') =
     Inl (Error (str ''Integration not yet supported for: 3*x^-1. Try: x, x^2, x^3, 2*x, etc.'')) \<and>
   solveInput (Some sample_math) (typed ([INTEGRAL] @ str '' x^-1 dx'')) =
     Inr (setResult
            (str ''Error: Integration not yet supported for: x^-1. Try: x, x^2, x^3, 2*x, etc.'')
            (typed ([INTEGRAL] @ str '' x^-1 dx''))) \<and>
   solveInput (Some sample_math) (typed ([INTEGRAL] @ str '' 3*x^-1 dx'')) =
     Inr (setResult
            (str ''Error: Integration not yet supported for: 3*x^-1. Try: x, x^2, x^3, 2*x, etc.'')
            (typed ([INTEGRAL] @ str '' 3*x^-1 dx'')))"
proof -
  have thrown: "integrate sample_parse (str ''x^-1'') (str ''x'') =
     Inl (Error (str ''Integration not yet supported for: x^-1. Try: x, x^2, x^3, 2*x, etc.''))"
    "integrate sample_parse (str ''3*x^-1'') (str ''x'') =
     Inl (Error (str ''Integration not yet supported for: 3*x^-1. Try: x, x^2, x^3, 2*x, etc.''))"
    using integrate_unary_minus_exponent [where math_parse = sample_parse
        and expression = "str ''x^-1''" and v = "str ''x''" and n = "JNum 1"
        and variable = "str ''x''"]
      integrate_unary_minus_exponent [where math_parse = sample_parse
        and expression = "str ''3*x^-1''" and v = "str ''x''" and n = "JNum 1"
        and c = "JNum 3" and variable = "str ''x''"]
    by (simp_all add: sample_negative_trees unsupported_def str_append [symmetric])
  show ?thesis
    using thrown
      solveInput_shows_error [where s = "typed ([INTEGRAL] @ str '' x^-1 dx'')"
        and raw = "str ''x^-1''" and v = "str ''x''" and m = sample_math
        and math_parse = sample_parse, OF sample_negative_inputs(1)]
      solveInput_shows_error [where s = "typed ([INTEGRAL] @ str '' 3*x^-1 dx'')"
        and raw = "str ''3*x^-1''" and v = "str ''x''" and m = sample_math
        and math_parse = sample_parse, OF sample_negative_inputs(2)]
    by (simp add: sample_negative_trees sample_negative_inputs sample_math_def
        str_append [symmetric])
qed

text \<open>
  C9.  A zero coefficient is stated to give a valid tree equivalent to 0 for every
  exponent \<open>n\<close> other than \<open>-1\<close>, and the exponent 0 to take the general branch.  The
  program takes the general branch in both cases for the literal exponents (lemmas
  \<open>power_rule_on_literals\<close> and \<open>power_rule_examples\<close>: \<open>0*x^2\<close> gives \<open>(0 * x^3)/3\<close> and
  \<open>x^0\<close> gives \<open>(x^1)/1\<close>), and returns no tree for the negative ones: for \<open>0*x^-2\<close> the
  parser returns \<open>0 * x ^ (-(2))\<close>, \<open>integrate\<close> throws the unsupported-expression error,
  and the input \<open>\<integral> 0*x^-2 dx\<close> is answered with that error.
\<close>

theorem integrate_rejects_zero_times_negative_power:
  "sample_parse (str ''0*x^-2'') =
     Inr (binary ''*'' (number 0) (binary ''^'' (symbol ''x'') (unary_minus (number 2)))) \<and>
   integrate sample_parse (str ''0*x^-2'') (str ''x'') =
     Inl (Error (str ''Integration not yet supported for: 0*x^-2. Try: x, x^2, x^3, 2*x, etc.'')) \<and>
   solveInput (Some sample_math) (typed ([INTEGRAL] @ str '' 0*x^-2 dx'')) =
     Inr (setResult
            (str ''Error: Integration not yet supported for: 0*x^-2. Try: x, x^2, x^3, 2*x, etc.'')
            (typed ([INTEGRAL] @ str '' 0*x^-2 dx'')))"
proof -
  have thrown: "integrate sample_parse (str ''0*x^-2'') (str ''x'') =
     Inl (Error (str ''Integration not yet supported for: 0*x^-2. Try: x, x^2, x^3, 2*x, etc.''))"
    using integrate_unary_minus_exponent [where math_parse = sample_parse
        and expression = "str ''0*x^-2''" and v = "str ''x''" and n = "JNum 2"
        and c = "JNum 0" and variable = "str ''x''"]
    by (simp add: sample_negative_trees unsupported_def str_append [symmetric])
  show ?thesis
    using thrown
      solveInput_shows_error [where s = "typed ([INTEGRAL] @ str '' 0*x^-2 dx'')"
        and raw = "str ''0*x^-2''" and v = "str ''x''" and m = sample_math
        and math_parse = sample_parse, OF sample_negative_inputs(4)]
    by (simp add: sample_negative_trees sample_negative_inputs sample_math_def
        str_append [symmetric])
qed

subsection \<open>The variable alone and times a constant\<close>



subsection \<open>No rule, and the order of the rules\<close>

text \<open>
  C5.  When the body tree is recognised by none of the four blocks, \<open>integrate\<close>
  throws: it returns no tree.  The message quotes the expression text as it was passed
  in and lists forms that are supported.  A function call such as \<open>sin(x)\<close> is such a
  body.
\<close>

theorem integrate_unsupported:
  "(math_parse expression = Inr parsed \<and>
    rule_power parsed v = None \<and> rule_const_power parsed v = None \<and>
    rule_symbol parsed v = None \<and> rule_const_symbol parsed v = None \<longrightarrow>
      integrate math_parse expression v =
        Inl (Error (str ''Integration not yet supported for: '' @ expression
                    @ str ''. Try: x, x^2, x^3, 2*x, etc.''))) \<and>
   (math_parse expression = Inr (FunctionNode f args) \<longrightarrow>
      integrate math_parse expression v =
        Inl (Error (str ''Integration not yet supported for: '' @ expression
                    @ str ''. Try: x, x^2, x^3, 2*x, etc.'')))"
  by (simp add: integrate_def unsupported_def rule_power_def rule_const_power_def
        rule_symbol_def rule_const_symbol_def)

theorem integrate_unsupported_witness:
  "integrate sample_parse (str ''sin(x)'') (str ''x'') =
     Inl (Error (str ''Integration not yet supported for: sin(x). Try: x, x^2, x^3, 2*x, etc.''))"
  using integrate_unsupported [where math_parse = sample_parse
          and expression = "str ''sin(x)''" and v = "str ''x''"
          and parsed = "FunctionNode (str ''sin'') [symbol ''x'']"
          and f = "str ''sin''" and args = "[symbol ''x'']"]
  by (simp add: sample_parse_def sample_table_def rule_power_def rule_const_power_def
        rule_symbol_def rule_const_symbol_def str_append [symmetric])

text \<open>
  C6.  No tree is recognised by two of the four rules, so trying the rules in any order
  that contains them all gives the result of the order of the source.  On the shape
  each rule is written for (\<open>v^n\<close>, \<open>c*v^n\<close>, \<open>v\<close>, \<open>c*v\<close> and \<open>v*c\<close>) that rule
  is the only one that recognises the tree.
\<close>

theorem rules_do_not_overlap:
  "(rule r parsed v \<noteq> None \<and> rule r' parsed v \<noteq> None \<longrightarrow> r = r') \<and>
   (set order = UNIV \<longrightarrow>
      integrate_in_order order math_parse expression v = integrate math_parse expression v) \<and>
   (rule r (OperatorNode (str ''^'') [SymbolNode v, ConstantNode (JNum n)]) v \<noteq> None
      \<longleftrightarrow> r = PowerRule) \<and>
   (rule r (OperatorNode (str ''*'')
              [ConstantNode c, OperatorNode (str ''^'') [SymbolNode v, ConstantNode (JNum n)]]) v \<noteq> None
      \<longleftrightarrow> r = ConstPowerRule) \<and>
   (rule r (SymbolNode v) v \<noteq> None \<longleftrightarrow> r = SymbolRule) \<and>
   (rule r (OperatorNode (str ''*'') [ConstantNode c, SymbolNode v]) v \<noteq> None
      \<longleftrightarrow> r = ConstSymbolRule) \<and>
   (rule r (OperatorNode (str ''*'') [SymbolNode v, ConstantNode c]) v \<noteq> None
      \<longleftrightarrow> r = ConstSymbolRule)"
proof (intro conjI impI)
  assume "rule r parsed v \<noteq> None \<and> rule r' parsed v \<noteq> None"
  then show "r = r'" by (auto dest: rule_disjoint)
next
  assume "set order = UNIV"
  then show "integrate_in_order order math_parse expression v = integrate math_parse expression v"
    by (simp add: integrate_as_table integrate_in_order_def first_match_all [of order]
          split: sum.splits)
qed (cases r; simp add: rule_power_def rule_const_power_def rule_symbol_def
       rule_const_symbol_def Let_def js_add_one_zero)+

theorem rules_do_not_overlap_witness:
  "set [ConstSymbolRule, SymbolRule, ConstPowerRule, PowerRule] = UNIV \<and>
   integrate_in_order [ConstSymbolRule, SymbolRule, ConstPowerRule, PowerRule]
       sample_parse (str ''3*x^2'') (str ''x'') =
     Inr (binary ''/''
           (ParenthesisNode (binary ''*'' (number 3) (binary ''^'' (symbol ''x'') (number 3))))
           (number 3)) \<and>
   rule PowerRule (binary ''^'' (symbol ''x'') (number 2)) (str ''x'') \<noteq> None \<and>
   rule ConstSymbolRule (binary ''^'' (symbol ''x'') (number 2)) (str ''x'') = None"
proof -
  have all: "set [ConstSymbolRule, SymbolRule, ConstPowerRule, PowerRule] = UNIV"
    by (auto simp: rule_id_UNIV)
  have run: "integrate sample_parse (str ''3*x^2'') (str ''x'') =
     Inr (binary ''/''
           (ParenthesisNode (binary ''*'' (number 3) (binary ''^'' (symbol ''x'') (number 3))))
           (number 3))"
    by (simp add: integrate_def sample_parse_def sample_table_def rule_power_def
        rule_const_power_shape number_text_small str_append [symmetric])
  show ?thesis
    using rules_do_not_overlap [where order = "[ConstSymbolRule, SymbolRule, ConstPowerRule, PowerRule]"
          and math_parse = sample_parse and expression = "str ''3*x^2''" and v = "str ''x''"
          and r = ConstSymbolRule and r' = PowerRule
          and parsed = "binary ''^'' (symbol ''x'') (number 2)" and n = 2 and c = "JNum 3"]
        rules_do_not_overlap [where r = PowerRule and r' = PowerRule and v = "str ''x''"
          and parsed = "binary ''^'' (symbol ''x'') (number 2)" and n = 2]
      all run
    by (simp add: rule_power_power)
qed

text \<open>
  C10.  Only the constant-times-symbol block accepts either operand order.  A product
  with the power on the left and the constant on the right, \<open>(v^n)*c\<close>, is recognised by
  no block, whatever the variable, the exponent and the constant: \<open>integrate\<close> throws the
  unsupported-expression error.  Both \<open>c*v\<close> and \<open>v*c\<close> are recognised.
\<close>

theorem integrate_power_times_const:
  "(math_parse expression =
        Inr (OperatorNode (str ''*'')
              [OperatorNode (str ''^'') [SymbolNode v, ConstantNode n], ConstantNode c]) \<longrightarrow>
      integrate math_parse expression variable =
        Inl (Error (str ''Integration not yet supported for: '' @ expression
                    @ str ''. Try: x, x^2, x^3, 2*x, etc.''))) \<and>
   rule_const_symbol (OperatorNode (str ''*'') [ConstantNode c, SymbolNode v]) v \<noteq> None \<and>
   rule_const_symbol (OperatorNode (str ''*'') [SymbolNode v, ConstantNode c]) v \<noteq> None"
  by (simp add: integrate_def unsupported_def rule_power_def rule_const_power_def
        rule_symbol_def rule_const_symbol_def)

theorem integrate_power_times_const_witness:
  "integrate sample_parse (str ''x^2*3'') (str ''x'') =
     Inl (Error (str ''Integration not yet supported for: x^2*3. Try: x, x^2, x^3, 2*x, etc.''))"
  using integrate_power_times_const [where math_parse = sample_parse
          and expression = "str ''x^2*3''" and v = "str ''x''" and n = "JNum 2" and c = "JNum 3"
          and variable = "str ''x''"]
  by (simp add: sample_parse_def sample_table_def str_append [symmetric])

section \<open>The dispatcher\<close>

lemma sample_plain_inputs:
  "\<not> startsWith (trim (input (typed (str ''x^2'')))) [INTEGRAL]"
  "\<not> startsWith (trim (input (typed (str ''x^2'')))) (str ''d/d'')"
  by (simp_all add: str_def INTEGRAL_def is_space_def trim_def startsWith_def typed_def)

lemma solveInput_answers:
  "\<exists>text.
     (\<forall>previous. solveInput math (s\<lparr>result := previous\<rparr>) = Inr (s\<lparr>result := text\<rparr>)) \<and>
     (text \<in> set [str ''Invalid integral format. Use: '' @ [INTEGRAL]
                     @ str '' expression dx (e.g., '' @ [INTEGRAL] @ str '' x^2 dx)'',
                   str ''Invalid derivative format. Use: d/dx expression (e.g., d/dx x^2)'',
                   str ''Please start your input with '' @ [INTEGRAL]
                     @ str '' (for integral) or d/dx (for derivative).''] \<or>
      (\<exists>detail. text = str ''Error: '' @ detail) \<or>
      (\<exists>m tree. math = Some m \<and> text = toString m tree))"
proof -
  let ?e = "trim (input s)"
  consider
      (integral_match) g v where "startsWith ?e [INTEGRAL]" "match_integral ?e = Some (g, v)"
    | (integral_invalid) "startsWith ?e [INTEGRAL]" "match_integral ?e = None"
    | (derivative_match) v g where "\<not> startsWith ?e [INTEGRAL]" "startsWith ?e (str ''d/d'')"
        "match_derivative ?e = Some (v, g)"
    | (derivative_invalid) "\<not> startsWith ?e [INTEGRAL]" "startsWith ?e (str ''d/d'')"
        "match_derivative ?e = None"
    | (other) "\<not> startsWith ?e [INTEGRAL]" "\<not> startsWith ?e (str ''d/d'')"
    by (cases "match_integral ?e"; cases "match_derivative ?e") auto
  then show ?thesis
  proof cases
    case integral_match
    define shown where "shown =
      (case math of
         None \<Rightarrow> str ''Error: '' @ str ''MathJS is not loaded. Please check your internet connection.''
       | Some m \<Rightarrow>
           (case parse m of
              None \<Rightarrow>
                str ''Error: '' @ str ''MathJS parse function is not available. The browser build may be incomplete.''
            | Some math_parse \<Rightarrow>
                (case integrate math_parse (trim g) v of
                   Inl e \<Rightarrow> str ''Error: '' @ message e
                 | Inr tree \<Rightarrow>
                     (case simplified_text m tree of
                        Inl e \<Rightarrow> str ''Error: '' @ message e
                      | Inr r \<Rightarrow> r))))"
    have "solveInput math (s\<lparr>result := previous\<rparr>) = Inr (s\<lparr>result := shown\<rparr>)" for previous
      using integral_match
      by (simp add: solveInput_def try_catch_def Let_def setResult_def shown_def
          str_append [symmetric] split: option.splits sum.splits)
    moreover have "(\<exists>detail. shown = str ''Error: '' @ detail) \<or>
        (\<exists>m tree. math = Some m \<and> shown = toString m tree)"
      by (auto simp: shown_def simplified_text_def split: option.splits sum.splits)
    ultimately show ?thesis by blast
  next
    case integral_invalid
    then have "solveInput math (s\<lparr>result := previous\<rparr>) =
        Inr (s\<lparr>result := str ''Invalid integral format. Use: '' @ [INTEGRAL]
                     @ str '' expression dx (e.g., '' @ [INTEGRAL] @ str '' x^2 dx)''\<rparr>)"
      for previous
      by (simp add: solveInput_def try_catch_def Let_def setResult_def)
    then show ?thesis by (intro exI conjI allI) (assumption, simp)
  next
    case derivative_match
    define shown where "shown =
      (case math of
         None \<Rightarrow> str ''Error: '' @ str ''MathJS is not loaded. Please check your internet connection.''
       | Some m \<Rightarrow>
           (case derivative m of
              None \<Rightarrow> str ''Error: '' @ str ''MathJS derivative function is not available.''
            | Some math_derivative \<Rightarrow>
                (case math_derivative (trim g) v of
                   Inl e \<Rightarrow> str ''Error: '' @ message e
                 | Inr tree \<Rightarrow>
                     (case simplified_text m tree of
                        Inl e \<Rightarrow> str ''Error: '' @ message e
                      | Inr r \<Rightarrow> r))))"
    have "solveInput math (s\<lparr>result := previous\<rparr>) = Inr (s\<lparr>result := shown\<rparr>)" for previous
      using derivative_match
      by (simp add: solveInput_def try_catch_def Let_def setResult_def shown_def
          str_append [symmetric] split: option.splits sum.splits)
    moreover have "(\<exists>detail. shown = str ''Error: '' @ detail) \<or>
        (\<exists>m tree. math = Some m \<and> shown = toString m tree)"
      by (auto simp: shown_def simplified_text_def split: option.splits sum.splits)
    ultimately show ?thesis by blast
  next
    case derivative_invalid
    then have "solveInput math (s\<lparr>result := previous\<rparr>) =
        Inr (s\<lparr>result := str ''Invalid derivative format. Use: d/dx expression (e.g., d/dx x^2)''\<rparr>)"
      for previous
      by (simp add: solveInput_def try_catch_def Let_def setResult_def)
    then show ?thesis by (intro exI conjI allI) (assumption, simp)
  next
    case other
    then have "solveInput math (s\<lparr>result := previous\<rparr>) =
        Inr (s\<lparr>result := str ''Please start your input with '' @ [INTEGRAL]
                     @ str '' (for integral) or d/dx (for derivative).''\<rparr>)"
      for previous
      by (simp add: solveInput_def try_catch_def Let_def setResult_def)
    then show ?thesis by (intro exI conjI allI) (assumption, simp)
  qed
qed

text \<open>
  C4.  For every input and every state of the mathjs global, \<open>solveInput\<close> returns
  normally, with the result set to a text that does not depend on the result shown
  before: a usage message, a text that starts with \<open>Error: \<close>, or the text of a tree.
  No exception reaches its caller.  In particular an input without a recognised prefix
  gets the usage message, a missing library or library function gets its error text,
  and an exception of \<open>integrate\<close> (from the parser or from the final \<open>throw\<close>), of the
  simplifier or of \<open>math.derivative\<close> is caught, the result being \<open>Error: \<close> followed by
  its message.
\<close>

theorem solveInput_never_throws:
  "(\<exists>text.
      (\<forall>previous. solveInput math (s\<lparr>result := previous\<rparr>) = Inr (s\<lparr>result := text\<rparr>)) \<and>
      (text \<in> set [str ''Invalid integral format. Use: '' @ [INTEGRAL]
                      @ str '' expression dx (e.g., '' @ [INTEGRAL] @ str '' x^2 dx)'',
                    str ''Invalid derivative format. Use: d/dx expression (e.g., d/dx x^2)'',
                    str ''Please start your input with '' @ [INTEGRAL]
                      @ str '' (for integral) or d/dx (for derivative).''] \<or>
       (\<exists>detail. text = str ''Error: '' @ detail) \<or>
       (\<exists>m tree. math = Some m \<and> text = toString m tree))) \<and>
   (\<not> startsWith (trim (input s)) [INTEGRAL] \<and> \<not> startsWith (trim (input s)) (str ''d/d'') \<longrightarrow>
      solveInput math s =
        Inr (setResult (str ''Please start your input with '' @ [INTEGRAL]
                        @ str '' (for integral) or d/dx (for derivative).'') s)) \<and>
   ((match_integral (trim (input s)) = Some (raw, v) \<or>
     match_derivative (trim (input s)) = Some (v, raw)) \<and> math = None \<longrightarrow>
      solveInput math s =
        Inr (setResult
              (str ''Error: MathJS is not loaded. Please check your internet connection.'') s)) \<and>
   (match_integral (trim (input s)) = Some (raw, v) \<and> math = Some m \<and> parse m = None \<longrightarrow>
      solveInput math s =
        Inr (setResult
              (str ''Error: MathJS parse function is not available. The browser build may be incomplete.'')
              s)) \<and>
   (match_derivative (trim (input s)) = Some (v, raw) \<and> math = Some m \<and> derivative m = None \<longrightarrow>
      solveInput math s =
        Inr (setResult (str ''Error: MathJS derivative function is not available.'') s)) \<and>
   (match_integral (trim (input s)) = Some (raw, v) \<and> math = Some m \<and>
    parse m = Some math_parse \<and> integrate math_parse (trim raw) v = Inl e \<longrightarrow>
      solveInput math s = Inr (setResult (str ''Error: '' @ message e) s)) \<and>
   (match_integral (trim (input s)) = Some (raw, v) \<and> math = Some m \<and>
    parse m = Some math_parse \<and> integrate math_parse (trim raw) v = Inr tree \<and>
    simplify m = Some math_simplify \<and> math_simplify tree = Inl e \<longrightarrow>
      solveInput math s = Inr (setResult (str ''Error: '' @ message e) s)) \<and>
   (match_derivative (trim (input s)) = Some (v, raw) \<and> math = Some m \<and>
    derivative m = Some math_derivative \<and> math_derivative (trim raw) v = Inl e \<longrightarrow>
      solveInput math s = Inr (setResult (str ''Error: '' @ message e) s))"
proof -
  have derivative_prefix: "\<not> startsWith (trim (input s)) [INTEGRAL]"
    if "match_derivative (trim (input s)) = Some (v, raw)" for v raw
    using that by (simp add: match_derivative_startsWith startsWith_d_not_integral)
  show ?thesis
  proof (intro conjI impI)
    show "\<exists>text.
      (\<forall>previous. solveInput math (s\<lparr>result := previous\<rparr>) = Inr (s\<lparr>result := text\<rparr>)) \<and>
      (text \<in> set [str ''Invalid integral format. Use: '' @ [INTEGRAL]
                      @ str '' expression dx (e.g., '' @ [INTEGRAL] @ str '' x^2 dx)'',
                    str ''Invalid derivative format. Use: d/dx expression (e.g., d/dx x^2)'',
                    str ''Please start your input with '' @ [INTEGRAL]
                      @ str '' (for integral) or d/dx (for derivative).''] \<or>
       (\<exists>detail. text = str ''Error: '' @ detail) \<or>
       (\<exists>m tree. math = Some m \<and> text = toString m tree))"
      by (rule solveInput_answers)
  next
    assume "\<not> startsWith (trim (input s)) [INTEGRAL] \<and>
      \<not> startsWith (trim (input s)) (str ''d/d'')"
    then show "solveInput math s =
        Inr (setResult (str ''Please start your input with '' @ [INTEGRAL]
                        @ str '' (for integral) or d/dx (for derivative).'') s)"
      by (simp add: solveInput_def try_catch_def Let_def)
  next
    assume "(match_integral (trim (input s)) = Some (raw, v) \<or>
      match_derivative (trim (input s)) = Some (v, raw)) \<and> math = None"
    then show "solveInput math s =
        Inr (setResult
              (str ''Error: MathJS is not loaded. Please check your internet connection.'') s)"
      using derivative_prefix [of v raw]
      by (auto simp: solveInput_def try_catch_def Let_def match_integral_startsWith
          match_derivative_startsWith)
  next
    assume "match_integral (trim (input s)) = Some (raw, v) \<and> math = Some m \<and> parse m = None"
    then show "solveInput math s =
        Inr (setResult
              (str ''Error: MathJS parse function is not available. The browser build may be incomplete.'')
              s)"
      by (simp add: solveInput_def try_catch_def Let_def match_integral_startsWith)
  next
    assume a: "match_derivative (trim (input s)) = Some (v, raw) \<and> math = Some m \<and>
      derivative m = None"
    with derivative_prefix [of v raw] show "solveInput math s =
        Inr (setResult (str ''Error: MathJS derivative function is not available.'') s)"
      by (simp add: solveInput_def try_catch_def Let_def match_derivative_startsWith)
  next
    assume "match_integral (trim (input s)) = Some (raw, v) \<and> math = Some m \<and>
      parse m = Some math_parse \<and> integrate math_parse (trim raw) v = Inl e"
    then show "solveInput math s = Inr (setResult (str ''Error: '' @ message e) s)"
      by (simp add: solveInput_def try_catch_def Let_def match_integral_startsWith)
  next
    assume "match_integral (trim (input s)) = Some (raw, v) \<and> math = Some m \<and>
      parse m = Some math_parse \<and> integrate math_parse (trim raw) v = Inr tree \<and>
      simplify m = Some math_simplify \<and> math_simplify tree = Inl e"
    then show "solveInput math s = Inr (setResult (str ''Error: '' @ message e) s)"
      by (simp add: solveInput_def try_catch_def Let_def match_integral_startsWith
          simplified_text_def)
  next
    assume a: "match_derivative (trim (input s)) = Some (v, raw) \<and> math = Some m \<and>
      derivative m = Some math_derivative \<and> math_derivative (trim raw) v = Inl e"
    with derivative_prefix [of v raw] show
      "solveInput math s = Inr (setResult (str ''Error: '' @ message e) s)"
      by (simp add: solveInput_def try_catch_def Let_def match_derivative_startsWith)
  qed
qed

theorem solveInput_never_throws_witness:
  "solveInput (Some sample_math) (typed (str ''x^2'')) =
     Inr (setResult (str ''Please start your input with '' @ [INTEGRAL]
                     @ str '' (for integral) or d/dx (for derivative).'') (typed (str ''x^2''))) \<and>
   solveInput None (typed ([INTEGRAL] @ str '' x^2 dx'')) =
     Inr (setResult (str ''Error: MathJS is not loaded. Please check your internet connection.'')
            (typed ([INTEGRAL] @ str '' x^2 dx''))) \<and>
   solveInput None (typed (str ''d/dx x^2'')) =
     Inr (setResult (str ''Error: MathJS is not loaded. Please check your internet connection.'')
            (typed (str ''d/dx x^2''))) \<and>
   solveInput (Some (sample_math\<lparr>parse := None\<rparr>)) (typed ([INTEGRAL] @ str '' x^2 dx'')) =
     Inr (setResult
            (str ''Error: MathJS parse function is not available. The browser build may be incomplete.'')
            (typed ([INTEGRAL] @ str '' x^2 dx''))) \<and>
   solveInput (Some (sample_math\<lparr>derivative := None\<rparr>)) (typed (str ''d/dx x^2'')) =
     Inr (setResult (str ''Error: MathJS derivative function is not available.'')
            (typed (str ''d/dx x^2''))) \<and>
   solveInput (Some sample_math) (typed ([INTEGRAL] @ str '' sin(x) dx'')) =
     Inr (setResult
            (str ''Error: Integration not yet supported for: sin(x). Try: x, x^2, x^3, 2*x, etc.'')
            (typed ([INTEGRAL] @ str '' sin(x) dx''))) \<and>
   solveInput (Some (sample_math\<lparr>simplify := Some failing_simplify\<rparr>))
       (typed ([INTEGRAL] @ str '' x^2 dx'')) =
     Inr (setResult (str ''Error: Cannot simplify'') (typed ([INTEGRAL] @ str '' x^2 dx''))) \<and>
   solveInput (Some sample_math) (typed (str ''d/dx sin(x)'')) =
     Inr (setResult (str ''Error: Unexpected input: sin(x)'') (typed (str ''d/dx sin(x)'')))"
  using solveInput_never_throws [where math = "Some sample_math" and s = "typed (str ''x^2'')"]
        solveInput_never_throws [where math = None
          and s = "typed ([INTEGRAL] @ str '' x^2 dx'')" and raw = "str ''x^2''" and v = "str ''x''"]
        solveInput_never_throws [where math = None
          and s = "typed (str ''d/dx x^2'')" and raw = "str ''x^2''" and v = "str ''x''"]
        solveInput_never_throws [where math = "Some (sample_math\<lparr>parse := None\<rparr>)"
          and s = "typed ([INTEGRAL] @ str '' x^2 dx'')" and raw = "str ''x^2''" and v = "str ''x''"
          and m = "sample_math\<lparr>parse := None\<rparr>"]
        solveInput_never_throws [where math = "Some (sample_math\<lparr>derivative := None\<rparr>)"
          and s = "typed (str ''d/dx x^2'')" and raw = "str ''x^2''" and v = "str ''x''"
          and m = "sample_math\<lparr>derivative := None\<rparr>"]
        solveInput_never_throws [where math = "Some sample_math"
          and s = "typed ([INTEGRAL] @ str '' sin(x) dx'')" and m = sample_math
          and raw = "str ''sin(x)''" and v = "str ''x''" and math_parse = sample_parse
          and e = "Error (str ''Integration not yet supported for: sin(x). Try: x, x^2, x^3, 2*x, etc.'')"]
        solveInput_never_throws [where math = "Some (sample_math\<lparr>simplify := Some failing_simplify\<rparr>)"
          and s = "typed ([INTEGRAL] @ str '' x^2 dx'')"
          and m = "sample_math\<lparr>simplify := Some failing_simplify\<rparr>"
          and raw = "str ''x^2''" and v = "str ''x''" and math_parse = sample_parse
          and tree = "binary ''/'' (ParenthesisNode (binary ''^'' (symbol ''x'') (number 3))) (number 3)"
          and math_simplify = failing_simplify and e = "Error (str ''Cannot simplify'')"]
        solveInput_never_throws [where math = "Some sample_math"
          and s = "typed (str ''d/dx sin(x)'')" and m = sample_math
          and raw = "str ''sin(x)''" and v = "str ''x''" and math_derivative = sample_derivative
          and e = "Error (str ''Unexpected input: sin(x)'')"]
        sample_inputs sample_plain_inputs sample_runs
  by (simp add: sample_math_def sample_derivative_def failing_simplify_def str_append [symmetric])

text \<open>
  C7.  When the trimmed input starts with the integral sign and is not of the form
  sign, blanks, body, blanks, \<open>d\<close>, letter, the result is the "Invalid integral format"
  message with its usage example; when it starts with \<open>d/d\<close> and is not of the form
  \<open>d/d\<close>, letter, blanks, body, the result is the "Invalid derivative format" message.
  Either way \<open>solveInput\<close> returns normally.
\<close>

theorem solveInput_invalid_format:
  "(startsWith (trim (input s)) [INTEGRAL] \<and> \<not> integral_pattern (trim (input s)) \<longrightarrow>
      solveInput math s =
        Inr (setResult (str ''Invalid integral format. Use: '' @ [INTEGRAL]
                        @ str '' expression dx (e.g., '' @ [INTEGRAL] @ str '' x^2 dx)'') s)) \<and>
   (startsWith (trim (input s)) (str ''d/d'') \<and> \<not> derivative_pattern (trim (input s)) \<longrightarrow>
      solveInput math s =
        Inr (setResult (str ''Invalid derivative format. Use: d/dx expression (e.g., d/dx x^2)'') s))"
proof (intro conjI impI)
  assume "startsWith (trim (input s)) [INTEGRAL] \<and> \<not> integral_pattern (trim (input s))"
  then have "startsWith (trim (input s)) [INTEGRAL]" "match_integral (trim (input s)) = None"
    by (simp_all add: match_integral_None_iff)
  then show "solveInput math s =
        Inr (setResult (str ''Invalid integral format. Use: '' @ [INTEGRAL]
                        @ str '' expression dx (e.g., '' @ [INTEGRAL] @ str '' x^2 dx)'') s)"
    by (simp add: solveInput_def try_catch_def Let_def)
next
  assume "startsWith (trim (input s)) (str ''d/d'') \<and> \<not> derivative_pattern (trim (input s))"
  then have "startsWith (trim (input s)) (str ''d/d'')" "match_derivative (trim (input s)) = None"
    by (simp_all add: match_derivative_None_iff)
  then show "solveInput math s =
        Inr (setResult (str ''Invalid derivative format. Use: d/dx expression (e.g., d/dx x^2)'') s)"
    by (simp add: solveInput_def try_catch_def Let_def startsWith_d_not_integral)
qed

theorem solveInput_invalid_format_witness:
  "\<not> integral_pattern (trim (input (typed ([INTEGRAL] @ str '' x^2'')))) \<and>
   solveInput (Some sample_math) (typed ([INTEGRAL] @ str '' x^2'')) =
     Inr (setResult (str ''Invalid integral format. Use: '' @ [INTEGRAL]
                     @ str '' expression dx (e.g., '' @ [INTEGRAL] @ str '' x^2 dx)'')
            (typed ([INTEGRAL] @ str '' x^2''))) \<and>
   \<not> derivative_pattern (trim (input (typed (str ''d/dx'')))) \<and>
   solveInput (Some sample_math) (typed (str ''d/dx'')) =
     Inr (setResult (str ''Invalid derivative format. Use: d/dx expression (e.g., d/dx x^2)'')
            (typed (str ''d/dx'')))"
  using solveInput_invalid_format [where math = "Some sample_math"
          and s = "typed ([INTEGRAL] @ str '' x^2'')"]
        solveInput_invalid_format [where math = "Some sample_math" and s = "typed (str ''d/dx'')"]
        match_integral_None_iff [of "trim (input (typed ([INTEGRAL] @ str '' x^2'')))"]
        match_derivative_None_iff [of "trim (input (typed (str ''d/dx'')))"]
        sample_inputs
  by simp

text \<open>
  C8.  When \<open>integrate\<close> (or \<open>math.derivative\<close>) has returned a tree: if
  \<open>math.simplify\<close> is not a function, the result is the text of that tree; if it is a
  function and returns a tree, the result is the text of the simplified tree.
\<close>

theorem solveInput_simplify_fallback:
  "(match_integral (trim (input s)) = Some (raw, v) \<and> math = Some m \<and>
    parse m = Some math_parse \<and> integrate math_parse (trim raw) v = Inr tree \<longrightarrow>
      (simplify m = None \<longrightarrow> solveInput math s = Inr (setResult (toString m tree) s)) \<and>
      (simplify m = Some math_simplify \<and> math_simplify tree = Inr simpler \<longrightarrow>
         solveInput math s = Inr (setResult (toString m simpler) s))) \<and>
   (match_derivative (trim (input s)) = Some (v, raw) \<and> math = Some m \<and>
    derivative m = Some math_derivative \<and> math_derivative (trim raw) v = Inr tree \<longrightarrow>
      (simplify m = None \<longrightarrow> solveInput math s = Inr (setResult (toString m tree) s)) \<and>
      (simplify m = Some math_simplify \<and> math_simplify tree = Inr simpler \<longrightarrow>
         solveInput math s = Inr (setResult (toString m simpler) s)))"
proof (intro conjI impI)
  assume "match_integral (trim (input s)) = Some (raw, v) \<and> math = Some m \<and>
    parse m = Some math_parse \<and> integrate math_parse (trim raw) v = Inr tree"
    and "simplify m = None"
  then show "solveInput math s = Inr (setResult (toString m tree) s)"
    by (simp add: solveInput_def try_catch_def Let_def match_integral_startsWith
        simplified_text_def)
next
  assume "match_integral (trim (input s)) = Some (raw, v) \<and> math = Some m \<and>
    parse m = Some math_parse \<and> integrate math_parse (trim raw) v = Inr tree"
    and "simplify m = Some math_simplify \<and> math_simplify tree = Inr simpler"
  then show "solveInput math s = Inr (setResult (toString m simpler) s)"
    by (simp add: solveInput_def try_catch_def Let_def match_integral_startsWith
        simplified_text_def)
next
  assume a: "match_derivative (trim (input s)) = Some (v, raw) \<and> math = Some m \<and>
    derivative m = Some math_derivative \<and> math_derivative (trim raw) v = Inr tree"
    and b: "simplify m = None"
  from a have "startsWith (trim (input s)) (str ''d/d'')"
    by (simp add: match_derivative_startsWith)
  with a b show "solveInput math s = Inr (setResult (toString m tree) s)"
    by (simp add: solveInput_def try_catch_def Let_def startsWith_d_not_integral
        simplified_text_def)
next
  assume a: "match_derivative (trim (input s)) = Some (v, raw) \<and> math = Some m \<and>
    derivative m = Some math_derivative \<and> math_derivative (trim raw) v = Inr tree"
    and b: "simplify m = Some math_simplify \<and> math_simplify tree = Inr simpler"
  from a have "startsWith (trim (input s)) (str ''d/d'')"
    by (simp add: match_derivative_startsWith)
  with a b show "solveInput math s = Inr (setResult (toString m simpler) s)"
    by (simp add: solveInput_def try_catch_def Let_def startsWith_d_not_integral
        simplified_text_def)
qed

theorem solveInput_simplify_fallback_witness:
  "solveInput (Some (sample_math\<lparr>simplify := None\<rparr>)) (typed ([INTEGRAL] @ str '' x^2 dx'')) =
     Inr (setResult (str ''(x ^ 3) / 3'') (typed ([INTEGRAL] @ str '' x^2 dx''))) \<and>
   solveInput (Some sample_math) (typed ([INTEGRAL] @ str '' x^2 dx'')) =
     Inr (setResult (str ''x ^ 3 / 3'') (typed ([INTEGRAL] @ str '' x^2 dx''))) \<and>
   solveInput (Some (sample_math\<lparr>simplify := None\<rparr>)) (typed (str ''d/dx x^2'')) =
     Inr (setResult (str ''2 * x'') (typed (str ''d/dx x^2''))) \<and>
   solveInput (Some sample_math) (typed (str ''d/dx x^2'')) =
     Inr (setResult (str ''2 * x'') (typed (str ''d/dx x^2'')))"
  using solveInput_simplify_fallback [where math = "Some (sample_math\<lparr>simplify := None\<rparr>)"
          and s = "typed ([INTEGRAL] @ str '' x^2 dx'')" and m = "sample_math\<lparr>simplify := None\<rparr>"
          and raw = "str ''x^2''" and v = "str ''x''" and math_parse = sample_parse
          and tree = "binary ''/'' (ParenthesisNode (binary ''^'' (symbol ''x'') (number 3))) (number 3)"]
        solveInput_simplify_fallback [where math = "Some sample_math"
          and s = "typed ([INTEGRAL] @ str '' x^2 dx'')" and m = sample_math
          and raw = "str ''x^2''" and v = "str ''x''" and math_parse = sample_parse
          and tree = "binary ''/'' (ParenthesisNode (binary ''^'' (symbol ''x'') (number 3))) (number 3)"
          and math_simplify = sample_simplify
          and simpler = "binary ''/'' (binary ''^'' (symbol ''x'') (number 3)) (number 3)"]
        solveInput_simplify_fallback [where math = "Some (sample_math\<lparr>simplify := None\<rparr>)"
          and s = "typed (str ''d/dx x^2'')" and m = "sample_math\<lparr>simplify := None\<rparr>"
          and raw = "str ''x^2''" and v = "str ''x''" and math_derivative = sample_derivative
          and tree = "binary ''*'' (number 2) (symbol ''x'')"]
        solveInput_simplify_fallback [where math = "Some sample_math"
          and s = "typed (str ''d/dx x^2'')" and m = sample_math
          and raw = "str ''x^2''" and v = "str ''x''" and math_derivative = sample_derivative
          and tree = "binary ''*'' (number 2) (symbol ''x'')"
          and math_simplify = sample_simplify
          and simpler = "binary ''*'' (number 2) (symbol ''x'')"]
        sample_inputs sample_runs
  by (simp add: sample_math_def sample_simplify_def sample_toString_def sample_derivative_def)

subsection \<open>The older copy\<close>

text \<open>
  The \<open>solveInput\<close> of src/unnamed/part_000 differs here: an input with a recognised
  prefix that its pattern does not match leaves the state as it was, with no message,
  so what is shown afterwards is whatever was shown before.
\<close>

lemma solveInput_part_000_silent:
  "startsWith (trim (input s)) [INTEGRAL] \<and> \<not> integral_pattern (trim (input s)) \<or>
   startsWith (trim (input s)) (str ''d/d'') \<and> \<not> derivative_pattern (trim (input s)) \<Longrightarrow>
   solveInput_part_000 math s = Inr s"
  by (auto simp: solveInput_part_000_def try_catch_def Let_def startsWith_d_not_integral
      match_integral_None_iff [symmetric] match_derivative_None_iff [symmetric])

lemma solveInput_part_000_silent_example:
  "solveInput_part_000 (Some sample_math) (typed ([INTEGRAL] @ str '' x^2'')) =
     Inr (typed ([INTEGRAL] @ str '' x^2''))"
  using solveInput_part_000_silent [where math = "Some sample_math"
          and s = "typed ([INTEGRAL] @ str '' x^2'')"]
        match_integral_None_iff [of "trim (input (typed ([INTEGRAL] @ str '' x^2'')))"]
        sample_inputs
  by simp

lemma solveInput_part_000_keeps_previous:
  "solveInput_part_000 (Some sample_math)
     ((typed ([INTEGRAL] @ str '' x^2''))\<lparr>result := previous\<rparr>) =
   Inr ((typed ([INTEGRAL] @ str '' x^2''))\<lparr>result := previous\<rparr>)"
  using sample_inputs
  by (simp add: solveInput_part_000_def try_catch_def Let_def typed_def)

end
